theory Spec2Isabelle
  imports Complex_Main
begin

section \<open>The persistent store\<close>

text \<open>
  The handlers of \<^verbatim>\<open>app/handlers/charge_point.py\<close> read and write five tables through
  SQLAlchemy. A table is a list of rows in insertion order; the position of a row in its
  table is its identity (the ORM object a query hands back is that row, and assigning to
  one of its attributes followed by a commit rewrites the row in place).

  Timezone-naive UTC instants are integers, ordered as time is.
\<close>

type_synonym datetime = int

text \<open>
  Modelled from the spec: the table declarations of \<^verbatim>\<open>app.models\<close> are not part of the
  source. The records below carry the columns the handlers read or write, with the
  entities of the data model (ChargePoint, IdTag, Session, MeterValue, ConnectorStatus).
  A nullable column is an option. Energy and meter readings are Python floats in the
  source; they are exact rationals here, so rounding, infinities and NaN are outside
  the model.
\<close>

record charge_point =
  cp_id :: string
  cp_vendor :: string
  cp_model :: string
  cp_charge_point_serial_number :: "string option"
  cp_charge_box_serial_number :: "string option"
  cp_firmware_version :: "string option"
  cp_iccid :: "string option"
  cp_imsi :: "string option"
  cp_meter_type :: "string option"
  cp_meter_serial_number :: "string option"
  cp_is_online :: bool
  cp_last_seen :: datetime
  cp_boot_status :: string
  cp_status :: "string option"
  cp_updated_at :: "datetime option"

record id_tag =
  it_id :: nat
  it_tag :: string
  it_status :: string
  it_expiry_date :: "datetime option"
  it_parent_id_tag :: "string option"

record session =
  s_id :: nat
  s_transaction_id :: int
  s_charge_point_id :: string
  s_id_tag_id :: nat
  s_connector_id :: int
  s_meter_start :: "int option"
  s_start_timestamp :: datetime
  s_status :: string
  s_reservation_id :: "int option"
  s_meter_stop :: "int option"
  s_stop_timestamp :: "datetime option"
  s_stop_reason :: "string option"
  s_energy_consumed :: "rat option"
  s_updated_at :: "datetime option"

record meter_value =
  mv_session_id :: "nat option"
  mv_timestamp :: datetime
  mv_value :: rat
  mv_unit :: string
  mv_measurand :: string
  mv_phase :: "string option"
  mv_location :: string
  mv_context :: string
  mv_format :: string

record connector_status =
  cs_charge_point_id :: string
  cs_connector_id :: int
  cs_status :: string
  cs_error_code :: string
  cs_timestamp :: datetime
  cs_info :: "string option"
  cs_vendor_id :: "string option"
  cs_vendor_error_code :: "string option"
  cs_availability :: "string option"
  cs_created_at :: datetime

record db =
  charge_points :: "charge_point list"
  id_tags :: "id_tag list"
  sessions :: "session list"
  meter_values :: "meter_value list"
  connector_statuses :: "connector_status list"

text \<open>
  Modelled from the spec: the helpers of \<^verbatim>\<open>app.utils\<close> (\<^verbatim>\<open>utc_now_naive\<close>,
  \<^verbatim>\<open>utc_now_iso\<close>, \<^verbatim>\<open>parse_ocpp_timestamp\<close>) are not part of the source, and
  \<^verbatim>\<open>datetime.isoformat\<close> and \<^verbatim>\<open>float\<close> are Python's own. They are the fields of
  an environment the handlers take as a parameter. One handler invocation reads one
  clock value. \<^verbatim>\<open>parse_ocpp_timestamp\<close> is taken to return a datetime for every
  string it is given: what it does with a malformed one is not visible in the source.
  \<^verbatim>\<open>pyfloat\<close> is \<^verbatim>\<open>float\<close> on a string: \<open>None\<close> where Python raises ValueError.

  The store itself is taken to work: the exceptions of the model are the ones the
  handlers' own queries raise on the data they find.
\<close>

record env =
  utc_now_naive :: datetime
  utc_now_iso :: string
  parse_ocpp_timestamp :: "string \<Rightarrow> datetime"
  isoformat :: "datetime \<Rightarrow> string"
  pyfloat :: "string \<Rightarrow> rat option"

section \<open>Queries\<close>

datatype error = MultipleResultsFound

text \<open>\<^verbatim>\<open>select(T).where(P)\<close>: the matching rows, each with its position in the table.\<close>

definition select_where :: "('a \<Rightarrow> bool) \<Rightarrow> 'a list \<Rightarrow> (nat \<times> 'a) list" where
  "select_where P xs = filter (\<lambda>r. P (snd r)) (enumerate 0 xs)"

text \<open>
  \<^verbatim>\<open>Result.scalar_one_or_none()\<close>: no row gives \<^verbatim>\<open>None\<close>, one row gives the row, and more
  than one row raises \<^verbatim>\<open>MultipleResultsFound\<close>.
\<close>

fun scalar_one_or_none :: "'a list \<Rightarrow> error + 'a option" where
  "scalar_one_or_none [] = Inr None"
| "scalar_one_or_none [x] = Inr (Some x)"
| "scalar_one_or_none (x # y # zs) = Inl MultipleResultsFound"

text \<open>
  \<^verbatim>\<open>.order_by(key.desc()).limit(1)\<close>: at most one row, one whose key is greatest. SQL
  leaves the choice among rows of equal key open; the model takes the earliest such row
  of the table.
\<close>

fun order_by_desc_limit_1 :: "('a \<Rightarrow> datetime) \<Rightarrow> (nat \<times> 'a) list \<Rightarrow> (nat \<times> 'a) list" where
  "order_by_desc_limit_1 key [] = []"
| "order_by_desc_limit_1 key (r # rs) =
     (case order_by_desc_limit_1 key rs of
        [] \<Rightarrow> [r]
      | b # _ \<Rightarrow> if key (snd r) < key (snd b) then [b] else [r])"

text \<open>\<^verbatim>\<open>session.get(ChargePointModel, id)\<close>: the row of that primary key, if any.\<close>

definition get_charge_point :: "db \<Rightarrow> string \<Rightarrow> (nat \<times> charge_point) option" where
  "get_charge_point d cid =
     (case select_where (\<lambda>c. cp_id c = cid) (charge_points d) of
        [] \<Rightarrow> None
      | r # _ \<Rightarrow> Some r)"

text \<open>The store numbers a new row one above the greatest number in use.\<close>

definition next_id :: "nat list \<Rightarrow> nat" where
  "next_id ids = Suc (fold max ids 0)"

section \<open>Messages\<close>

text \<open>A timestamp argument is a string still to be parsed, or already a datetime.\<close>

datatype ts_input = TsStr string | TsDatetime datetime

record id_tag_info =
  iti_status :: string
  iti_expiryDate :: "string option"
  iti_parentIdTag :: "string option"

text \<open>The responses of \<^verbatim>\<open>ocpp.v16.call_result\<close> the handlers build.\<close>

datatype call_result =
    BootNotificationRes string int string
  | HeartbeatRes string
  | AuthorizeRes id_tag_info
  | StartTransactionRes id_tag_info int
  | MeterValuesRes
  | StopTransactionRes "id_tag_info option"
  | StatusNotificationRes
  | RemoteStartTransactionRes string
  | RemoteStopTransactionRes string
  | ChangeAvailabilityRes string

text \<open>
  A sampled value and a meter value as the handlers read them with \<^verbatim>\<open>dict.get\<close>: every
  key may be missing. The value of a reading is the string OCPP 1.6 sends.
\<close>

record sampled_value =
  sv_value :: "string option"
  sv_context :: "string option"
  sv_format :: "string option"
  sv_measurand :: "string option"
  sv_phase :: "string option"
  sv_location :: "string option"
  sv_unit :: "string option"

record meter_val =
  mval_timestamp :: "ts_input option"
  mval_sampledValue :: "sampled_value list option"

text \<open>The detached tasks a handler starts with \<^verbatim>\<open>asyncio.create_task\<close>.\<close>

datatype task =
    SendAutomaticStopTransaction int int int
  | SendAvailabilityStatusNotifications "int list" string

definition invalid_info :: id_tag_info where
  "invalid_info = \<lparr>iti_status = ''Invalid'', iti_expiryDate = None, iti_parentIdTag = None\<rparr>"

section \<open>Authorization\<close>

text \<open>
  \<^verbatim>\<open>_get_id_tag_info\<close>. The lookup runs in a unit of work of its own; any exception
  inside it is caught and answered with status Invalid. A Python string counts as
  present when it is not empty.
\<close>

definition get_id_tag_info :: "env \<Rightarrow> db \<Rightarrow> string \<Rightarrow> id_tag_info" where
  "get_id_tag_info e d tg =
     (case scalar_one_or_none (select_where (\<lambda>t. it_tag t = tg) (id_tags d)) of
        Inl _ \<Rightarrow> invalid_info
      | Inr None \<Rightarrow> invalid_info
      | Inr (Some (_, tag_record)) \<Rightarrow>
          (if (case it_expiry_date tag_record of
                 None \<Rightarrow> False
               | Some x \<Rightarrow> x < utc_now_naive e)
           then \<lparr>iti_status = ''Expired'',
                 iti_expiryDate = map_option (isoformat e) (it_expiry_date tag_record),
                 iti_parentIdTag = None\<rparr>
           else \<lparr>iti_status = it_status tag_record,
                 iti_expiryDate = map_option (isoformat e) (it_expiry_date tag_record),
                 iti_parentIdTag =
                   (case it_parent_id_tag tag_record of
                      None \<Rightarrow> None
                    | Some p \<Rightarrow> if p = [] then None else Some p)\<rparr>))"

definition on_authorize :: "env \<Rightarrow> string \<Rightarrow> string \<Rightarrow> db \<Rightarrow> call_result \<times> db" where
  "on_authorize e self_id tg d = (AuthorizeRes (get_id_tag_info e d tg), d)"

section \<open>Transactions\<close>

text \<open>
  \<^verbatim>\<open>random.randint(lo, hi)\<close> from one unit of entropy; the handlers draw their entropy
  from a list, left to right.
\<close>

definition randint :: "int \<Rightarrow> int \<Rightarrow> nat \<Rightarrow> int" where
  "randint lo hi r = lo + int r mod (hi - lo + 1)"

text \<open>
  \<^verbatim>\<open>_generate_transaction_id\<close>: the \<^verbatim>\<open>while True\<close> loop. Each round takes one draw; the
  loop that has used up every draw it was given without finding a free id has not
  returned (\<open>None\<close>). The lookup of a round may raise.
\<close>

fun generate_transaction_id ::
  "nat list \<Rightarrow> session list \<Rightarrow> ((error + int) \<times> nat list) option" where
  "generate_transaction_id [] ss = None"
| "generate_transaction_id (r # rs) ss =
     (let transaction_id = randint 100000 999999 r in
      case scalar_one_or_none (select_where (\<lambda>s. s_transaction_id s = transaction_id) ss) of
        Inl err \<Rightarrow> Some (Inl err, rs)
      | Inr None \<Rightarrow> Some (Inr transaction_id, rs)
      | Inr (Some existing) \<Rightarrow> generate_transaction_id rs ss)"

definition read_timestamp :: "env \<Rightarrow> ts_input \<Rightarrow> datetime" where
  "read_timestamp e ts = (case ts of TsStr s \<Rightarrow> parse_ocpp_timestamp e s | TsDatetime t \<Rightarrow> t)"

text \<open>
  \<^verbatim>\<open>on_start_transaction\<close>. The result is \<open>None\<close> when the id allocation has not
  returned. An exception inside the unit of work rolls it back and answers Invalid.
\<close>

definition on_start_transaction ::
  "env \<Rightarrow> string \<Rightarrow> int \<Rightarrow> string \<Rightarrow> int \<Rightarrow> ts_input \<Rightarrow> int option \<Rightarrow> db \<Rightarrow> nat list
     \<Rightarrow> (call_result \<times> db \<times> nat list) option" where
  "on_start_transaction e self_id connector_id tg meter_start timestamp reservation_id d rng =
     (let id_tag_info = get_id_tag_info e d tg in
      if iti_status id_tag_info = ''Accepted'' then
        (case scalar_one_or_none (select_where (\<lambda>t. it_tag t = tg) (id_tags d)) of
           Inl _ \<Rightarrow> Some (StartTransactionRes invalid_info 0, d, rng)
         | Inr None \<Rightarrow> Some (StartTransactionRes invalid_info 0, d, rng)
         | Inr (Some (_, tag_record)) \<Rightarrow>
             (case generate_transaction_id rng (sessions d) of
                None \<Rightarrow> None
              | Some (Inl _, rng') \<Rightarrow> Some (StartTransactionRes invalid_info 0, d, rng')
              | Some (Inr transaction_id, rng') \<Rightarrow>
                  (let new_session =
                         \<lparr>s_id = next_id (map s_id (sessions d)),
                          s_transaction_id = transaction_id,
                          s_charge_point_id = self_id,
                          s_id_tag_id = it_id tag_record,
                          s_connector_id = connector_id,
                          s_meter_start = Some meter_start,
                          s_start_timestamp = read_timestamp e timestamp,
                          s_status = ''Active'',
                          s_reservation_id = reservation_id,
                          s_meter_stop = None,
                          s_stop_timestamp = None,
                          s_stop_reason = None,
                          s_energy_consumed = None,
                          s_updated_at = None\<rparr>
                   in Some (StartTransactionRes id_tag_info transaction_id,
                            d\<lparr>sessions := sessions d @ [new_session]\<rparr>, rng'))))
      else Some (StartTransactionRes id_tag_info 0, d, rng))"

section \<open>Meter values\<close>

text \<open>
  The two nested loops over a batch, as \<^verbatim>\<open>on_meter_values\<close> and the transaction-data part
  of \<^verbatim>\<open>on_stop_transaction\<close> both write them; they differ in the default context only.
  The result is the rows handed to \<^verbatim>\<open>session.add\<close>, in order. \<^verbatim>\<open>float(None)\<close> raises
  TypeError and a string that is no number raises ValueError: both skip the reading.
\<close>

definition coerce :: "env \<Rightarrow> sampled_value \<Rightarrow> rat option" where
  "coerce e sv = (case sv_value sv of None \<Rightarrow> None | Some v \<Rightarrow> pyfloat e v)"

definition get_default :: "'a option \<Rightarrow> 'a \<Rightarrow> 'a" where
  "get_default v dflt = (case v of None \<Rightarrow> dflt | Some x \<Rightarrow> x)"

fun add_sampled_values ::
  "env \<Rightarrow> string \<Rightarrow> nat option \<Rightarrow> datetime \<Rightarrow> sampled_value list \<Rightarrow> meter_value list" where
  "add_sampled_values e ctx sid meter_timestamp [] = []"
| "add_sampled_values e ctx sid meter_timestamp (sampled_val # rest) =
     (case coerce e sampled_val of
        None \<Rightarrow> add_sampled_values e ctx sid meter_timestamp rest
      | Some numeric_value \<Rightarrow>
          \<lparr>mv_session_id = sid,
           mv_timestamp = meter_timestamp,
           mv_value = numeric_value,
           mv_unit = get_default (sv_unit sampled_val) ''Wh'',
           mv_measurand = get_default (sv_measurand sampled_val) ''Energy.Active.Import.Register'',
           mv_phase = sv_phase sampled_val,
           mv_location = get_default (sv_location sampled_val) ''Outlet'',
           mv_context = get_default (sv_context sampled_val) ctx,
           mv_format = get_default (sv_format sampled_val) ''Raw''\<rparr>
          # add_sampled_values e ctx sid meter_timestamp rest)"

definition meter_timestamp_of :: "env \<Rightarrow> meter_val \<Rightarrow> datetime" where
  "meter_timestamp_of e meter_val =
     (case mval_timestamp meter_val of
        Some (TsStr s) \<Rightarrow> parse_ocpp_timestamp e s
      | Some (TsDatetime t) \<Rightarrow> t
      | None \<Rightarrow> utc_now_naive e)"

fun add_meter_values ::
  "env \<Rightarrow> string \<Rightarrow> nat option \<Rightarrow> meter_val list \<Rightarrow> meter_value list" where
  "add_meter_values e ctx sid [] = []"
| "add_meter_values e ctx sid (meter_val # rest) =
     add_sampled_values e ctx sid (meter_timestamp_of e meter_val)
       (get_default (mval_sampledValue meter_val) [])
     @ add_meter_values e ctx sid rest"

text \<open>
  \<^verbatim>\<open>on_meter_values\<close>. A transaction id of 0 is falsy and is not looked up. An exception
  rolls the unit of work back; the response is built either way.
\<close>

definition on_meter_values ::
  "env \<Rightarrow> string \<Rightarrow> int \<Rightarrow> meter_val list \<Rightarrow> int option \<Rightarrow> db \<Rightarrow> call_result \<times> db" where
  "on_meter_values e self_id connector_id meter_value transaction_id d =
     (case (case transaction_id of
              None \<Rightarrow> Inr None
            | Some t \<Rightarrow>
                if t = 0 then Inr None
                else scalar_one_or_none
                       (select_where (\<lambda>s. s_transaction_id s = t) (sessions d))) of
        Inl _ \<Rightarrow> (MeterValuesRes, d)
      | Inr session_record \<Rightarrow>
          (MeterValuesRes,
           d\<lparr>meter_values := meter_values d
                @ add_meter_values e ''Sample.Periodic''
                    (map_option (\<lambda>r. s_id (snd r)) session_record) meter_value\<rparr>))"

text \<open>The assignments \<^verbatim>\<open>on_stop_transaction\<close> makes to the session it found.\<close>

definition stop_session :: "env \<Rightarrow> datetime \<Rightarrow> int \<Rightarrow> string \<Rightarrow> session \<Rightarrow> session" where
  "stop_session e stop_time meter_stop reason s =
     s\<lparr>s_meter_stop := Some meter_stop,
       s_stop_timestamp := Some stop_time,
       s_status := ''Completed'',
       s_stop_reason := Some reason,
       s_updated_at := Some (utc_now_naive e),
       s_energy_consumed :=
         (case s_meter_start s of
            None \<Rightarrow> s_energy_consumed s
          | Some meter_start \<Rightarrow> Some (of_int (meter_stop - meter_start) / 1000))\<rparr>"

text \<open>
  \<^verbatim>\<open>on_stop_transaction\<close>. The charge point's own id is used for logging only. The
  keyword arguments \<^verbatim>\<open>id_tag\<close>, \<^verbatim>\<open>reason\<close> and \<^verbatim>\<open>transaction_data\<close> may be missing.
\<close>

definition on_stop_transaction ::
  "env \<Rightarrow> string \<Rightarrow> int \<Rightarrow> ts_input \<Rightarrow> int \<Rightarrow> string option \<Rightarrow> string option
     \<Rightarrow> meter_val list option \<Rightarrow> db \<Rightarrow> call_result \<times> db" where
  "on_stop_transaction e self_id transaction_id timestamp meter_stop tg reason transaction_data d =
     (let stop_time = read_timestamp e timestamp in
      case scalar_one_or_none
             (select_where (\<lambda>s. s_transaction_id s = transaction_id) (sessions d)) of
        Inl _ \<Rightarrow> (StopTransactionRes None, d)
      | Inr session_record \<Rightarrow>
          (StopTransactionRes
             (case tg of
                None \<Rightarrow> None
              | Some t \<Rightarrow> if t = [] then None else Some (get_id_tag_info e d t)),
           d\<lparr>sessions :=
               (case session_record of
                  None \<Rightarrow> sessions d
                | Some (i, s) \<Rightarrow>
                    (sessions d)
                      [i := stop_session e stop_time meter_stop (get_default reason ''Local'') s]),
             meter_values := meter_values d
               @ add_meter_values e ''Transaction.End''
                   (map_option (\<lambda>r. s_id (snd r)) session_record)
                   (get_default transaction_data [])\<rparr>))"

section \<open>Charge point registration and connector status\<close>

record boot_kwargs =
  bk_charge_point_serial_number :: "string option"
  bk_charge_box_serial_number :: "string option"
  bk_firmware_version :: "string option"
  bk_iccid :: "string option"
  bk_imsi :: "string option"
  bk_meter_type :: "string option"
  bk_meter_serial_number :: "string option"

definition on_boot_notification ::
  "env \<Rightarrow> string \<Rightarrow> string \<Rightarrow> string \<Rightarrow> boot_kwargs \<Rightarrow> db \<Rightarrow> call_result \<times> db" where
  "on_boot_notification e self_id charge_point_vendor charge_point_model kwargs d =
     (BootNotificationRes (utc_now_iso e) 300 ''Accepted'',
      (case get_charge_point d self_id of
         None \<Rightarrow>
           d\<lparr>charge_points := charge_points d @
               [\<lparr>cp_id = self_id,
                 cp_vendor = charge_point_vendor,
                 cp_model = charge_point_model,
                 cp_charge_point_serial_number = bk_charge_point_serial_number kwargs,
                 cp_charge_box_serial_number = bk_charge_box_serial_number kwargs,
                 cp_firmware_version = bk_firmware_version kwargs,
                 cp_iccid = bk_iccid kwargs,
                 cp_imsi = bk_imsi kwargs,
                 cp_meter_type = bk_meter_type kwargs,
                 cp_meter_serial_number = bk_meter_serial_number kwargs,
                 cp_is_online = True,
                 cp_last_seen = utc_now_naive e,
                 cp_boot_status = ''Accepted'',
                 cp_status = None,
                 cp_updated_at = None\<rparr>]\<rparr>
       | Some (i, charge_point) \<Rightarrow>
           d\<lparr>charge_points := (charge_points d)
               [i := charge_point
                  \<lparr>cp_vendor := charge_point_vendor,
                   cp_model := charge_point_model,
                   cp_charge_point_serial_number := bk_charge_point_serial_number kwargs,
                   cp_charge_box_serial_number := bk_charge_box_serial_number kwargs,
                   cp_firmware_version := bk_firmware_version kwargs,
                   cp_iccid := bk_iccid kwargs,
                   cp_imsi := bk_imsi kwargs,
                   cp_meter_type := bk_meter_type kwargs,
                   cp_meter_serial_number := bk_meter_serial_number kwargs,
                   cp_is_online := True,
                   cp_last_seen := utc_now_naive e,
                   cp_boot_status := ''Accepted'',
                   cp_updated_at := Some (utc_now_naive e)\<rparr>]\<rparr>))"

definition on_heartbeat :: "env \<Rightarrow> string \<Rightarrow> db \<Rightarrow> call_result \<times> db" where
  "on_heartbeat e self_id d =
     (HeartbeatRes (utc_now_iso e),
      (case get_charge_point d self_id of
         None \<Rightarrow> d
       | Some (i, charge_point) \<Rightarrow>
           d\<lparr>charge_points := (charge_points d)
               [i := charge_point
                  \<lparr>cp_last_seen := utc_now_naive e,
                   cp_is_online := True,
                   cp_updated_at := Some (utc_now_naive e)\<rparr>]\<rparr>))"

text \<open>
  \<^verbatim>\<open>on_status_notification\<close> appends one row to the connector-status log. A missing or
  empty timestamp is replaced by the clock. The new row's creation time is the store's
  default, the clock; its availability is not set by this handler.
\<close>

definition on_status_notification ::
  "env \<Rightarrow> string \<Rightarrow> int \<Rightarrow> string \<Rightarrow> string \<Rightarrow> ts_input option \<Rightarrow> string option
     \<Rightarrow> string option \<Rightarrow> string option \<Rightarrow> db \<Rightarrow> call_result \<times> db" where
  "on_status_notification e self_id connector_id error_code status timestamp info vendor_id
       vendor_error_code d =
     (let status_timestamp =
            (case timestamp of
               None \<Rightarrow> utc_now_naive e
             | Some (TsStr s) \<Rightarrow> if s = [] then utc_now_naive e else parse_ocpp_timestamp e s
             | Some (TsDatetime t) \<Rightarrow> t);
          status_record =
            \<lparr>cs_charge_point_id = self_id,
             cs_connector_id = connector_id,
             cs_status = status,
             cs_error_code = error_code,
             cs_timestamp = status_timestamp,
             cs_info = info,
             cs_vendor_id = vendor_id,
             cs_vendor_error_code = vendor_error_code,
             cs_availability = None,
             cs_created_at = utc_now_naive e\<rparr>
      in (StatusNotificationRes,
          d\<lparr>connector_statuses := connector_statuses d @ [status_record],
            charge_points :=
              (case get_charge_point d self_id of
                 None \<Rightarrow> charge_points d
               | Some (i, charge_point) \<Rightarrow>
                   if connector_id = 0
                   then (charge_points d)
                          [i := charge_point\<lparr>cp_status := Some status,
                                             cp_updated_at := Some (utc_now_naive e)\<rparr>]
                   else charge_points d)\<rparr>))"

section \<open>Remote start and remote stop\<close>

definition connector_rows :: "string \<Rightarrow> int \<Rightarrow> connector_status list \<Rightarrow> (nat \<times> connector_status) list" where
  "connector_rows self_id connector_id rows =
     select_where (\<lambda>c. cs_charge_point_id c = self_id \<and> cs_connector_id c = connector_id) rows"

text \<open>
  \<^verbatim>\<open>on_remote_start_transaction\<close>. The charging profile is only logged and is left out.
\<close>

definition on_remote_start_transaction ::
  "env \<Rightarrow> string \<Rightarrow> string \<Rightarrow> int option \<Rightarrow> db \<Rightarrow> call_result \<times> db" where
  "on_remote_start_transaction e self_id tg connector_id d =
     (let id_tag_info = get_id_tag_info e d tg in
      (RemoteStartTransactionRes
         (if iti_status id_tag_info \<noteq> ''Accepted'' then ''Rejected''
          else
            (case get_charge_point d self_id of
               None \<Rightarrow> ''Rejected''
             | Some (_, charge_point) \<Rightarrow>
                 if \<not> cp_is_online charge_point then ''Rejected''
                 else
                   (case connector_id of
                      None \<Rightarrow> ''Accepted''
                    | Some c \<Rightarrow>
                        (case scalar_one_or_none
                                (order_by_desc_limit_1 cs_timestamp
                                   (connector_rows self_id c (connector_statuses d))) of
                           Inl _ \<Rightarrow> ''Rejected''
                         | Inr None \<Rightarrow> ''Accepted''
                         | Inr (Some (_, latest_status)) \<Rightarrow>
                             if cs_status latest_status \<notin> set [''Available'', ''Preparing'']
                             then ''Rejected''
                             else ''Accepted'')))),
       d))"

text \<open>
  \<^verbatim>\<open>on_remote_stop_transaction\<close>: the response, the store and the tasks started.
\<close>

definition on_remote_stop_transaction ::
  "env \<Rightarrow> string \<Rightarrow> int \<Rightarrow> db \<Rightarrow> call_result \<times> db \<times> task list" where
  "on_remote_stop_transaction e self_id transaction_id d =
     (case scalar_one_or_none
             (select_where
                (\<lambda>s. s_transaction_id s = transaction_id \<and> s_charge_point_id s = self_id)
                (sessions d)) of
        Inl _ \<Rightarrow> (RemoteStopTransactionRes ''Rejected'', d, [])
      | Inr None \<Rightarrow> (RemoteStopTransactionRes ''Rejected'', d, [])
      | Inr (Some (_, session_record)) \<Rightarrow>
          if s_status session_record \<noteq> ''Active''
          then (RemoteStopTransactionRes ''Rejected'', d, [])
          else (RemoteStopTransactionRes ''Accepted'', d,
                [SendAutomaticStopTransaction transaction_id (s_connector_id session_record)
                   (get_default (s_meter_start session_record) 0)]))"

section \<open>Change of availability\<close>

definition latest_by_created_at ::
  "string \<Rightarrow> int \<Rightarrow> connector_status list \<Rightarrow> error + (nat \<times> connector_status) option" where
  "latest_by_created_at self_id connector_id rows =
     scalar_one_or_none (order_by_desc_limit_1 cs_created_at (connector_rows self_id connector_id rows))"

text \<open>The loop that sets \<^verbatim>\<open>already_in_state\<close>, with its \<^verbatim>\<open>break\<close>.\<close>

fun already_in_state ::
  "string \<Rightarrow> string \<Rightarrow> int list \<Rightarrow> connector_status list \<Rightarrow> error + bool" where
  "already_in_state self_id type [] rows = Inr True"
| "already_in_state self_id type (target_connector_id # rest) rows =
     (case latest_by_created_at self_id target_connector_id rows of
        Inl err \<Rightarrow> Inl err
      | Inr None \<Rightarrow> Inr False
      | Inr (Some (_, current_status)) \<Rightarrow>
          if cs_availability current_status \<noteq> Some type then Inr False
          else already_in_state self_id type rest rows)"

text \<open>
  The loop that applies the change: the latest row of each target connector gets the
  new availability, and a connector with no row gets a new one.
\<close>

fun apply_availability ::
  "env \<Rightarrow> string \<Rightarrow> string \<Rightarrow> int list \<Rightarrow> connector_status list
     \<Rightarrow> error + connector_status list" where
  "apply_availability e self_id type [] rows = Inr rows"
| "apply_availability e self_id type (target_connector_id # rest) rows =
     (case latest_by_created_at self_id target_connector_id rows of
        Inl err \<Rightarrow> Inl err
      | Inr (Some (i, latest_status)) \<Rightarrow>
          apply_availability e self_id type rest
            (rows[i := latest_status\<lparr>cs_availability := Some type\<rparr>])
      | Inr None \<Rightarrow>
          apply_availability e self_id type rest
            (rows @
             [\<lparr>cs_charge_point_id = self_id,
               cs_connector_id = target_connector_id,
               cs_status = (if type = ''Operative'' then ''Available'' else ''Unavailable''),
               cs_error_code = ''NoError'',
               cs_timestamp = utc_now_naive e,
               cs_info = None,
               cs_vendor_id = None,
               cs_vendor_error_code = None,
               cs_availability = Some type,
               cs_created_at = utc_now_naive e\<rparr>]))"

definition active_session_on_connector_1 ::
  "string \<Rightarrow> session list \<Rightarrow> error + (nat \<times> session) option" where
  "active_session_on_connector_1 self_id ss =
     scalar_one_or_none
       (select_where
          (\<lambda>s. s_charge_point_id s = self_id \<and> s_connector_id s = 1 \<and> s_status s = ''Active'')
          ss)"

text \<open>
  \<^verbatim>\<open>on_change_availability\<close>: the response, the store and the tasks started. Any
  exception inside the unit of work rolls it back and answers Rejected.
\<close>

definition on_change_availability ::
  "env \<Rightarrow> string \<Rightarrow> int \<Rightarrow> string \<Rightarrow> db \<Rightarrow> call_result \<times> db \<times> task list" where
  "on_change_availability e self_id connector_id type d =
     (if connector_id < 0 \<or> connector_id > 1
      then (ChangeAvailabilityRes ''Rejected'', d, [])
      else
        (case (if connector_id = 0 \<or> connector_id = 1
               then active_session_on_connector_1 self_id (sessions d)
               else Inr None) of
           Inl _ \<Rightarrow> (ChangeAvailabilityRes ''Rejected'', d, [])
         | Inr active_session \<Rightarrow>
             if active_session \<noteq> None
             then (ChangeAvailabilityRes ''Scheduled'', d, [])
             else
               (let target_connectors = (if connector_id = 0 then [0, 1] else [1]) in
                case already_in_state self_id type target_connectors (connector_statuses d) of
                  Inl _ \<Rightarrow> (ChangeAvailabilityRes ''Rejected'', d, [])
                | Inr True \<Rightarrow> (ChangeAvailabilityRes ''Accepted'', d, [])
                | Inr False \<Rightarrow>
                    (case apply_availability e self_id type target_connectors
                            (connector_statuses d) of
                       Inl _ \<Rightarrow> (ChangeAvailabilityRes ''Rejected'', d, [])
                     | Inr rows \<Rightarrow>
                         (ChangeAvailabilityRes ''Accepted'',
                          d\<lparr>connector_statuses := rows\<rparr>,
                          [SendAvailabilityStatusNotifications target_connectors type])))))"

section \<open>Detached tasks\<close>





section \<open>Sequences of messages\<close>

text \<open>The decoded actions the dispatcher delivers, one constructor per handler.\<close>

datatype msg =
    BootNotification string string boot_kwargs
  | Heartbeat
  | Authorize string
  | StartTransaction int string int ts_input "int option"
  | MeterValues int "meter_val list" "int option"
  | StopTransaction int ts_input int "string option" "string option" "meter_val list option"
  | StatusNotification int string string "ts_input option" "string option" "string option"
      "string option"
  | RemoteStartTransaction string "int option"
  | RemoteStopTransaction int
  | ChangeAvailability int string

fun dispatch ::
  "env \<Rightarrow> string \<Rightarrow> msg \<Rightarrow> db \<Rightarrow> nat list \<Rightarrow> (call_result \<times> db \<times> nat list) option" where
  "dispatch e self_id (BootNotification v m kw) d rng =
     (case on_boot_notification e self_id v m kw d of (res, d') \<Rightarrow> Some (res, d', rng))"
| "dispatch e self_id Heartbeat d rng =
     (case on_heartbeat e self_id d of (res, d') \<Rightarrow> Some (res, d', rng))"
| "dispatch e self_id (Authorize tg) d rng =
     (case on_authorize e self_id tg d of (res, d') \<Rightarrow> Some (res, d', rng))"
| "dispatch e self_id (StartTransaction c tg ms ts rid) d rng =
     on_start_transaction e self_id c tg ms ts rid d rng"
| "dispatch e self_id (MeterValues c mv tid) d rng =
     (case on_meter_values e self_id c mv tid d of (res, d') \<Rightarrow> Some (res, d', rng))"
| "dispatch e self_id (StopTransaction tid ts ms tg reason td) d rng =
     (case on_stop_transaction e self_id tid ts ms tg reason td d of
        (res, d') \<Rightarrow> Some (res, d', rng))"
| "dispatch e self_id (StatusNotification c ec st ts info vid vec) d rng =
     (case on_status_notification e self_id c ec st ts info vid vec d of
        (res, d') \<Rightarrow> Some (res, d', rng))"
| "dispatch e self_id (RemoteStartTransaction tg c) d rng =
     (case on_remote_start_transaction e self_id tg c d of (res, d') \<Rightarrow> Some (res, d', rng))"
| "dispatch e self_id (RemoteStopTransaction tid) d rng =
     (case on_remote_stop_transaction e self_id tid d of (res, d', _) \<Rightarrow> Some (res, d', rng))"
| "dispatch e self_id (ChangeAvailability c ty) d rng =
     (case on_change_availability e self_id c ty d of (res, d', _) \<Rightarrow> Some (res, d', rng))"

text \<open>
  A run delivers the messages one after the other, each with the clock reading and the
  charge point it comes from, and collects the responses.
\<close>

fun run ::
  "(env \<times> string \<times> msg) list \<Rightarrow> db \<Rightarrow> nat list \<Rightarrow> (call_result list \<times> db \<times> nat list) option" where
  "run [] d rng = Some ([], d, rng)"
| "run ((e, self_id, m) # rest) d rng =
     (case dispatch e self_id m d rng of
        None \<Rightarrow> None
      | Some (res, d', rng') \<Rightarrow>
          (case run rest d' rng' of
             None \<Rightarrow> None
           | Some (ress, d'', rng'') \<Rightarrow> Some (res # ress, d'', rng'')))"


section \<open>Example data\<close>

text \<open>
  A small environment and store on which the theorems below are run: the clock is
  given, a timestamp string parses to its length, a datetime prints as that many
  strokes, and \<^verbatim>\<open>float\<close> reads unsigned decimal numerals.
\<close>

fun digits :: "string \<Rightarrow> nat \<Rightarrow> nat option" where
  "digits [] acc = Some acc"
| "digits (c # cs) acc =
     (let n = (of_char c :: nat) in
      if 48 \<le> n \<and> n \<le> 57 then digits cs (10 * acc + (n - 48)) else None)"

definition decimal :: "string \<Rightarrow> rat option" where
  "decimal s = (if s = [] then None else map_option of_nat (digits s 0))"

definition example_env :: "datetime \<Rightarrow> env" where
  "example_env now =
     \<lparr>utc_now_naive = now,
      utc_now_iso = ''now'',
      parse_ocpp_timestamp = (\<lambda>s. int (length s)),
      isoformat = (\<lambda>t. replicate (nat t) CHR ''i''),
      pyfloat = decimal\<rparr>"

definition example_tag :: "string \<Rightarrow> string \<Rightarrow> datetime option \<Rightarrow> id_tag" where
  "example_tag tg st ex =
     \<lparr>it_id = 1, it_tag = tg, it_status = st, it_expiry_date = ex, it_parent_id_tag = None\<rparr>"

definition example_db :: "id_tag list \<Rightarrow> db" where
  "example_db tags =
     \<lparr>charge_points = [], id_tags = tags, sessions = [], meter_values = [],
      connector_statuses = []\<rparr>"

definition example_session :: "int \<Rightarrow> string \<Rightarrow> int \<Rightarrow> int option \<Rightarrow> string \<Rightarrow> session" where
  "example_session t cp c m st =
     \<lparr>s_id = 1, s_transaction_id = t, s_charge_point_id = cp, s_id_tag_id = 1,
      s_connector_id = c, s_meter_start = m, s_start_timestamp = 0, s_status = st,
      s_reservation_id = None, s_meter_stop = None, s_stop_timestamp = None,
      s_stop_reason = None, s_energy_consumed = None, s_updated_at = None\<rparr>"

definition example_charge_point :: "string \<Rightarrow> bool \<Rightarrow> charge_point" where
  "example_charge_point cid online =
     \<lparr>cp_id = cid, cp_vendor = ''V'', cp_model = ''M'',
      cp_charge_point_serial_number = None, cp_charge_box_serial_number = None,
      cp_firmware_version = None, cp_iccid = None, cp_imsi = None, cp_meter_type = None,
      cp_meter_serial_number = None, cp_is_online = online, cp_last_seen = 0,
      cp_boot_status = ''Accepted'', cp_status = None, cp_updated_at = None\<rparr>"

definition example_status :: "string \<Rightarrow> int \<Rightarrow> string \<Rightarrow> datetime \<Rightarrow> string option \<Rightarrow> connector_status" where
  "example_status cid c st ts av =
     \<lparr>cs_charge_point_id = cid, cs_connector_id = c, cs_status = st, cs_error_code = ''NoError'',
      cs_timestamp = ts, cs_info = None, cs_vendor_id = None, cs_vendor_error_code = None,
      cs_availability = av, cs_created_at = ts\<rparr>"

definition example_reading :: "string option \<Rightarrow> sampled_value" where
  "example_reading v =
     \<lparr>sv_value = v, sv_context = None, sv_format = None, sv_measurand = None,
      sv_phase = None, sv_location = None, sv_unit = None\<rparr>"

section \<open>The ingestion of meter values as specified\<close>

text \<open>
  The ingestion of a batch in the words of the specification, to be compared with the
  loops of the source: every reading whose value coerces to a number gives one row, with
  the defaults format Raw, measurand Energy.Active.Import.Register, location Outlet and
  unit Wh, the caller's default context, and the timestamp of its block; a reading that
  does not coerce gives none. The owning session is the one of the given transaction
  id, if there is one.
\<close>

definition spec_reading_row ::
  "string \<Rightarrow> nat option \<Rightarrow> datetime \<Rightarrow> sampled_value \<Rightarrow> rat \<Rightarrow> meter_value" where
  "spec_reading_row ctx owner ts reading v =
     \<lparr>mv_session_id = owner,
      mv_timestamp = ts,
      mv_value = v,
      mv_unit = (case sv_unit reading of None \<Rightarrow> ''Wh'' | Some u \<Rightarrow> u),
      mv_measurand =
        (case sv_measurand reading of None \<Rightarrow> ''Energy.Active.Import.Register'' | Some m \<Rightarrow> m),
      mv_phase = sv_phase reading,
      mv_location = (case sv_location reading of None \<Rightarrow> ''Outlet'' | Some l \<Rightarrow> l),
      mv_context = (case sv_context reading of None \<Rightarrow> ctx | Some c \<Rightarrow> c),
      mv_format = (case sv_format reading of None \<Rightarrow> ''Raw'' | Some f \<Rightarrow> f)\<rparr>"

definition spec_block_readings :: "meter_val \<Rightarrow> sampled_value list" where
  "spec_block_readings block = (case mval_sampledValue block of None \<Rightarrow> [] | Some rs \<Rightarrow> rs)"

definition spec_ingest :: "env \<Rightarrow> string \<Rightarrow> nat option \<Rightarrow> meter_val list \<Rightarrow> meter_value list" where
  "spec_ingest e ctx owner batch =
     concat (map (\<lambda>block.
        List.map_filter
          (\<lambda>reading. map_option (spec_reading_row ctx owner (meter_timestamp_of e block) reading)
                        (coerce e reading))
          (spec_block_readings block)) batch)"

definition spec_owner :: "int option \<Rightarrow> session list \<Rightarrow> nat option" where
  "spec_owner transaction_id ss =
     (case transaction_id of
        None \<Rightarrow> None
      | Some t \<Rightarrow> if t = 0 then None
                  else map_option s_id (find (\<lambda>s. s_transaction_id s = t) ss))"

section \<open>Notions used to state the properties\<close>




definition latest_rows :: "string \<Rightarrow> int \<Rightarrow> connector_status list \<Rightarrow> (nat \<times> connector_status) list" where
  "latest_rows self_id c rows = order_by_desc_limit_1 cs_created_at (connector_rows self_id c rows)"


section \<open>Properties of the queries\<close>

lemma select_where_iff:
  "(i, x) \<in> set (select_where P xs) \<longleftrightarrow> i < length xs \<and> xs ! i = x \<and> P x"
  by (auto simp: select_where_def in_set_enumerate_eq)

lemma select_where_empty_iff:
  "select_where P xs = [] \<longleftrightarrow> (\<forall>x \<in> set xs. \<not> P x)"
proof -
  have "select_where P xs = [] \<longleftrightarrow> (\<forall>i x. (i, x) \<notin> set (select_where P xs))"
    by (cases "select_where P xs") auto
  also have "\<dots> \<longleftrightarrow> (\<forall>x \<in> set xs. \<not> P x)"
    unfolding select_where_iff by (metis in_set_conv_nth)
  finally show ?thesis .
qed

text \<open>A key column without repetition gives a lookup by key at most one row.\<close>

lemma filter_enumerate_none:
  "t \<notin> f ` set xs \<Longrightarrow> filter (\<lambda>r. f (snd r) = t) (enumerate n xs) = []"
  by (induction xs arbitrary: n) auto

lemma filter_enumerate_distinct:
  "distinct (map f xs) \<Longrightarrow> length (filter (\<lambda>r. f (snd r) = t) (enumerate n xs)) \<le> 1"
  by (induction xs arbitrary: n) (auto simp: filter_enumerate_none)

lemma select_where_key_le1:
  "distinct (map f xs) \<Longrightarrow> length (select_where (\<lambda>s. f s = t) xs) \<le> 1"
  using filter_enumerate_distinct[of f xs t 0] by (simp add: select_where_def)

lemma select_where_conj_le1:
  "distinct (map f xs) \<Longrightarrow> length (select_where (\<lambda>s. f s = t \<and> Q s) xs) \<le> 1"
proof -
  assume d: "distinct (map f xs)"
  have "select_where (\<lambda>s. f s = t \<and> Q s) xs
          = filter (\<lambda>r. Q (snd r)) (select_where (\<lambda>s. f s = t) xs)"
    by (simp add: select_where_def conj_commute)
  moreover have "length (filter (\<lambda>r. Q (snd r)) (select_where (\<lambda>s. f s = t) xs))
          \<le> length (select_where (\<lambda>s. f s = t) xs)"
    by (rule length_filter_le)
  ultimately show ?thesis using select_where_key_le1[OF d, of t] by (metis le_trans)
qed

lemma scalar_one_or_none_le1:
  "length ys \<le> 1 \<Longrightarrow> scalar_one_or_none ys = Inr (case ys of [] \<Rightarrow> None | y # _ \<Rightarrow> Some y)"
  by (cases ys rule: scalar_one_or_none.cases) auto

lemma scalar_unique_Some:
  assumes "length (select_where P xs) \<le> 1" "i < length xs" "P (xs ! i)"
  shows "scalar_one_or_none (select_where P xs) = Inr (Some (i, xs ! i))"
proof -
  have m: "(i, xs ! i) \<in> set (select_where P xs)" using assms by (simp add: select_where_iff)
  then obtain y ys where e: "select_where P xs = y # ys" by (cases "select_where P xs") auto
  with assms(1) have "ys = []" by simp
  with e m have "select_where P xs = [(i, xs ! i)]" by simp
  then show ?thesis by simp
qed

section \<open>Properties of the authorization\<close>

lemma lookup_known_tag:
  assumes "distinct (map it_tag (id_tags d))" "i < length (id_tags d)"
  shows "scalar_one_or_none (select_where (\<lambda>t. it_tag t = it_tag (id_tags d ! i)) (id_tags d))
           = Inr (Some (i, id_tags d ! i))"
  using assms by (intro scalar_unique_Some select_where_key_le1) auto

lemma lookup_unknown_tag:
  assumes "tg \<notin> it_tag ` set (id_tags d)"
  shows "scalar_one_or_none (select_where (\<lambda>t. it_tag t = tg) (id_tags d)) = Inr None"
proof -
  have "select_where (\<lambda>t. it_tag t = tg) (id_tags d) = []"
    using assms by (auto simp: select_where_empty_iff)
  then show ?thesis by simp
qed

text \<open>
  Claim C6. For every known credential whose expiry time is in the past, the resolution
  returns status Expired with that expiry echoed back (in its ISO rendering), whatever
  the tag's stored status; otherwise it passes the stored status through, with the
  expiry when there is one and the parent tag when there is a non-empty one. The
  credential string is a unique column of the tag table.
\<close>

theorem resolve_expired_or_stored_status:
  assumes "distinct (map it_tag (id_tags d))" and "r \<in> set (id_tags d)"
  shows "(\<forall>x. it_expiry_date r = Some x \<and> x < utc_now_naive e \<longrightarrow>
            get_id_tag_info e d (it_tag r) =
              \<lparr>iti_status = ''Expired'', iti_expiryDate = Some (isoformat e x),
               iti_parentIdTag = None\<rparr>)
       \<and> ((\<forall>x. it_expiry_date r = Some x \<longrightarrow> \<not> x < utc_now_naive e) \<longrightarrow>
            get_id_tag_info e d (it_tag r) =
              \<lparr>iti_status = it_status r,
               iti_expiryDate = map_option (isoformat e) (it_expiry_date r),
               iti_parentIdTag =
                 (if it_parent_id_tag r = Some [] then None else it_parent_id_tag r)\<rparr>)"
proof -
  from assms(2) obtain i where i: "i < length (id_tags d)" "id_tags d ! i = r"
    by (auto simp: in_set_conv_nth)
  have look: "scalar_one_or_none (select_where (\<lambda>t. it_tag t = it_tag r) (id_tags d))
                = Inr (Some (i, r))"
    using lookup_known_tag[OF assms(1) i(1)] i(2) by simp
  show ?thesis
    by (auto simp: get_id_tag_info_def look split: option.splits)
qed

theorem resolve_expired_or_stored_status_witness:
  "get_id_tag_info (example_env 10) (example_db [example_tag ''A'' ''Accepted'' (Some 5)]) ''A'' =
     \<lparr>iti_status = ''Expired'', iti_expiryDate = Some ''iiiii'', iti_parentIdTag = None\<rparr>
   \<and> get_id_tag_info (example_env 10) (example_db [example_tag ''B'' ''Blocked'' (Some 12)]) ''B'' =
     \<lparr>iti_status = ''Blocked'', iti_expiryDate = Some ''iiiiiiiiiiii'', iti_parentIdTag = None\<rparr>"
  using resolve_expired_or_stored_status
          [of "example_db [example_tag ''A'' ''Accepted'' (Some 5)]"
              "example_tag ''A'' ''Accepted'' (Some 5)" "example_env 10"]
        resolve_expired_or_stored_status
          [of "example_db [example_tag ''B'' ''Blocked'' (Some 12)]"
              "example_tag ''B'' ''Blocked'' (Some 12)" "example_env 10"]
  by (simp add: example_db_def example_tag_def example_env_def eval_nat_numeral)

text \<open>
  Claim C7. A credential that is not in the store resolves to Invalid; and whenever the
  resolved status is not Accepted, StartTransaction answers transaction id 0 with the
  resolved info and leaves the whole store, the session table included, as it was.
\<close>

theorem unaccepted_credential_starts_nothing:
  "(tg \<notin> it_tag ` set (id_tags d) \<longrightarrow>
        get_id_tag_info e d tg = invalid_info
        \<and> on_start_transaction e self_id connector_id tg meter_start timestamp reservation_id d rng
            = Some (StartTransactionRes invalid_info 0, d, rng))
   \<and> (iti_status (get_id_tag_info e d tg) \<noteq> ''Accepted'' \<longrightarrow>
        on_start_transaction e self_id connector_id tg meter_start timestamp reservation_id d rng
          = Some (StartTransactionRes (get_id_tag_info e d tg) 0, d, rng))"
proof (intro conjI impI)
  assume absent: "tg \<notin> it_tag ` set (id_tags d)"
  then show inv: "get_id_tag_info e d tg = invalid_info"
    by (simp add: get_id_tag_info_def lookup_unknown_tag)
  then show "on_start_transaction e self_id connector_id tg meter_start timestamp reservation_id d rng
            = Some (StartTransactionRes invalid_info 0, d, rng)"
    by (simp add: on_start_transaction_def invalid_info_def)
next
  assume "iti_status (get_id_tag_info e d tg) \<noteq> ''Accepted''"
  then show "on_start_transaction e self_id connector_id tg meter_start timestamp reservation_id d rng
          = Some (StartTransactionRes (get_id_tag_info e d tg) 0, d, rng)"
    by (simp add: on_start_transaction_def)
qed

theorem unaccepted_credential_starts_nothing_witness:
  "get_id_tag_info (example_env 10) (example_db []) ''A'' = invalid_info
   \<and> on_start_transaction (example_env 10) ''CP1'' 1 ''A'' 100 (TsDatetime 9) None (example_db []) [7]
       = Some (StartTransactionRes invalid_info 0, example_db [], [7])"
  using unaccepted_credential_starts_nothing
          [of "''A''" "example_db []" "example_env 10" "''CP1''" 1 100 "TsDatetime 9" None "[7]"]
  by (simp add: example_db_def invalid_info_def)

section \<open>Properties of the transactions\<close>


lemma lookup_session:
  assumes "distinct (map s_transaction_id ss)" "i < length ss"
  shows "scalar_one_or_none (select_where (\<lambda>s. s_transaction_id s = s_transaction_id (ss ! i)) ss)
           = Inr (Some (i, ss ! i))"
  using assms by (intro scalar_unique_Some select_where_key_le1) auto














lemma remote_stop_lookup:
  assumes "distinct (map s_transaction_id ss)"
  shows "scalar_one_or_none
           (select_where (\<lambda>s. s_transaction_id s = t \<and> s_charge_point_id s = c) ss)
         = Inr (case select_where (\<lambda>s. s_transaction_id s = t \<and> s_charge_point_id s = c) ss of
                  [] \<Rightarrow> None | y # _ \<Rightarrow> Some y)"
  by (intro scalar_one_or_none_le1 select_where_conj_le1 assms)

text \<open>
  Claim C3. RemoteStopTransaction answers Accepted exactly when the session table holds
  a session of the given transaction id that belongs to the calling charge point and is
  Active (the transaction id being a unique column); and an answer other than Accepted
  is Rejected, with the store unchanged and no task started.
\<close>

theorem remote_stop_accepted_iff_active_session:
  "(distinct (map s_transaction_id (sessions d)) \<longrightarrow>
      (fst (on_remote_stop_transaction e self_id t d) = RemoteStopTransactionRes ''Accepted''
        \<longleftrightarrow> (\<exists>s \<in> set (sessions d). s_transaction_id s = t \<and> s_charge_point_id s = self_id
                \<and> s_status s = ''Active'')))
   \<and> (fst (on_remote_stop_transaction e self_id t d) \<noteq> RemoteStopTransactionRes ''Accepted'' \<longrightarrow>
        on_remote_stop_transaction e self_id t d = (RemoteStopTransactionRes ''Rejected'', d, []))"
proof (intro conjI impI)
  let ?P = "\<lambda>s. s_transaction_id s = t \<and> s_charge_point_id s = self_id"
  assume dist: "distinct (map s_transaction_id (sessions d))"
  have le: "length (select_where ?P (sessions d)) \<le> 1"
    by (intro select_where_conj_le1 dist)
  show "fst (on_remote_stop_transaction e self_id t d) = RemoteStopTransactionRes ''Accepted''
        \<longleftrightarrow> (\<exists>s \<in> set (sessions d). s_transaction_id s = t \<and> s_charge_point_id s = self_id
                \<and> s_status s = ''Active'')"
  proof (cases "select_where ?P (sessions d)")
    case Nil
    then have "\<forall>x \<in> set (sessions d). \<not> ?P x" by (simp add: select_where_empty_iff)
    with Nil show ?thesis by (auto simp: on_remote_stop_transaction_def)
  next
    case (Cons y ys)
    with le have ys: "ys = []" by simp
    obtain i s where y: "y = (i, s)" by (cases y)
    have mem: "\<And>j x. (j, x) \<in> set (select_where ?P (sessions d)) \<longleftrightarrow> j = i \<and> x = s"
      using Cons ys y by auto
    have s: "s \<in> set (sessions d)" "?P s"
      using mem[of i s] by (auto simp: select_where_iff)
    have uniq: "x = s" if "x \<in> set (sessions d)" "?P x" for x
    proof -
      from that obtain j where "j < length (sessions d)" "sessions d ! j = x"
        by (auto simp: in_set_conv_nth)
      with that have "(j, x) \<in> set (select_where ?P (sessions d))"
        by (simp add: select_where_iff)
      then show ?thesis by (simp add: mem)
    qed
    have "fst (on_remote_stop_transaction e self_id t d) = RemoteStopTransactionRes ''Accepted''
            \<longleftrightarrow> s_status s = ''Active''"
      using Cons ys y by (simp add: on_remote_stop_transaction_def)
    also have "\<dots> \<longleftrightarrow> (\<exists>x \<in> set (sessions d). ?P x \<and> s_status x = ''Active'')"
      using s uniq by blast
    finally show ?thesis by simp
  qed
next
  assume "fst (on_remote_stop_transaction e self_id t d) \<noteq> RemoteStopTransactionRes ''Accepted''"
  then show "on_remote_stop_transaction e self_id t d = (RemoteStopTransactionRes ''Rejected'', d, [])"
    by (auto simp: on_remote_stop_transaction_def split: sum.splits option.splits if_splits)
qed

theorem remote_stop_accepted_iff_active_session_witness:
  "on_remote_stop_transaction (example_env 20) ''CP1'' 7
        ((example_db [])\<lparr>sessions := [example_session 7 ''CP1'' 1 (Some 100) ''Active'']\<rparr>)
     = (RemoteStopTransactionRes ''Accepted'',
        (example_db [])\<lparr>sessions := [example_session 7 ''CP1'' 1 (Some 100) ''Active'']\<rparr>,
        [SendAutomaticStopTransaction 7 1 100])
   \<and> on_remote_stop_transaction (example_env 20) ''CP2'' 7
        ((example_db [])\<lparr>sessions := [example_session 7 ''CP1'' 1 (Some 100) ''Active'']\<rparr>)
     = (RemoteStopTransactionRes ''Rejected'',
        (example_db [])\<lparr>sessions := [example_session 7 ''CP1'' 1 (Some 100) ''Active'']\<rparr>,
        [])"
  using remote_stop_accepted_iff_active_session
          [of "(example_db [])\<lparr>sessions := [example_session 7 ''CP1'' 1 (Some 100) ''Active'']\<rparr>"
              "example_env 20" "''CP1''" 7]
        remote_stop_accepted_iff_active_session
          [of "(example_db [])\<lparr>sessions := [example_session 7 ''CP1'' 1 (Some 100) ''Active'']\<rparr>"
              "example_env 20" "''CP2''" 7]
  by (simp add: example_db_def example_session_def example_env_def
        on_remote_stop_transaction_def select_where_def get_default_def)

lemma order_by_desc_limit_1_greatest:
  "rs \<noteq> [] \<Longrightarrow>
     \<exists>b. order_by_desc_limit_1 key rs = [b] \<and> b \<in> set rs
         \<and> (\<forall>r \<in> set rs. key (snd r) \<le> key (snd b))"
proof (induction rs)
  case Nil
  then show ?case by simp
next
  case (Cons r rs)
  show ?case
  proof (cases "rs = []")
    case True
    then show ?thesis by simp
  next
    case False
    from Cons.IH[OF False] obtain b where
      b: "order_by_desc_limit_1 key rs = [b]" "b \<in> set rs"
         "\<forall>x \<in> set rs. key (snd x) \<le> key (snd b)" by blast
    show ?thesis
    proof (cases "key (snd r) < key (snd b)")
      case True
      with b show ?thesis by (intro exI[of _ b]) auto
    next
      case False
      with b show ?thesis by (intro exI[of _ r]) force
    qed
  qed
qed

lemma order_by_desc_limit_1_Nil [simp]: "order_by_desc_limit_1 key rs = [] \<longleftrightarrow> rs = []"
  using order_by_desc_limit_1_greatest[of rs key] by (cases "rs = []") auto

section \<open>Properties of the remote start\<close>

text \<open>
  Claim C10. With an Accepted credential and an online charge point, RemoteStartTransaction
  for a named connector that has no row in the connector-status log answers Accepted;
  and it answers Rejected only when that connector has a row of greatest timestamp whose
  status is neither Available nor Preparing.
\<close>

theorem remote_start_unknown_connector_accepted:
  "iti_status (get_id_tag_info e d tg) = ''Accepted''
   \<and> get_charge_point d self_id = Some (j, cp) \<and> cp_is_online cp \<longrightarrow>
     ((\<forall>r \<in> set (connector_statuses d).
          \<not> (cs_charge_point_id r = self_id \<and> cs_connector_id r = c)) \<longrightarrow>
        on_remote_start_transaction e self_id tg (Some c) d
          = (RemoteStartTransactionRes ''Accepted'', d))
   \<and> (on_remote_start_transaction e self_id tg (Some c) d
          \<noteq> (RemoteStartTransactionRes ''Accepted'', d) \<longrightarrow>
        on_remote_start_transaction e self_id tg (Some c) d
          = (RemoteStartTransactionRes ''Rejected'', d)
        \<and> (\<exists>i latest. (i, latest) \<in> set (connector_rows self_id c (connector_statuses d))
              \<and> (\<forall>r \<in> set (connector_rows self_id c (connector_statuses d)).
                    cs_timestamp (snd r) \<le> cs_timestamp latest)
              \<and> cs_status latest \<noteq> ''Available'' \<and> cs_status latest \<noteq> ''Preparing''))"
proof (intro impI conjI)
  assume a: "iti_status (get_id_tag_info e d tg) = ''Accepted''
   \<and> get_charge_point d self_id = Some (j, cp) \<and> cp_is_online cp"
  assume "\<forall>r \<in> set (connector_statuses d).
          \<not> (cs_charge_point_id r = self_id \<and> cs_connector_id r = c)"
  then have "connector_rows self_id c (connector_statuses d) = []"
    by (simp add: connector_rows_def select_where_empty_iff)
  with a show "on_remote_start_transaction e self_id tg (Some c) d
          = (RemoteStartTransactionRes ''Accepted'', d)"
    by (simp add: on_remote_start_transaction_def)
next
  assume a: "iti_status (get_id_tag_info e d tg) = ''Accepted''
   \<and> get_charge_point d self_id = Some (j, cp) \<and> cp_is_online cp"
  assume n: "on_remote_start_transaction e self_id tg (Some c) d
          \<noteq> (RemoteStartTransactionRes ''Accepted'', d)"
  let ?rows = "connector_rows self_id c (connector_statuses d)"
  have ne: "?rows \<noteq> []"
    using a n by (auto simp: on_remote_start_transaction_def)
  from order_by_desc_limit_1_greatest[OF ne, of cs_timestamp] obtain b where
    b: "order_by_desc_limit_1 cs_timestamp ?rows = [b]" "b \<in> set ?rows"
       "\<forall>r \<in> set ?rows. cs_timestamp (snd r) \<le> cs_timestamp (snd b)" by blast
  obtain i latest where il: "b = (i, latest)" by (cases b)
  have rej: "cs_status latest \<noteq> ''Available'' \<and> cs_status latest \<noteq> ''Preparing''"
    using a n b(1) il by (auto simp: on_remote_start_transaction_def split: if_splits)
  then show "on_remote_start_transaction e self_id tg (Some c) d
          = (RemoteStartTransactionRes ''Rejected'', d)"
    using a b(1) il by (simp add: on_remote_start_transaction_def)
  show "\<exists>i latest. (i, latest) \<in> set ?rows
              \<and> (\<forall>r \<in> set ?rows. cs_timestamp (snd r) \<le> cs_timestamp latest)
              \<and> cs_status latest \<noteq> ''Available'' \<and> cs_status latest \<noteq> ''Preparing''"
    using b il rej by (intro exI[of _ i] exI[of _ latest]) simp
qed

theorem remote_start_unknown_connector_accepted_witness:
  "on_remote_start_transaction (example_env 20) ''CP1'' ''A'' (Some 5)
      ((example_db [example_tag ''A'' ''Accepted'' None])
         \<lparr>charge_points := [example_charge_point ''CP1'' True],
          connector_statuses := [example_status ''CP1'' 1 ''Charging'' 3 None]\<rparr>)
    = (RemoteStartTransactionRes ''Accepted'',
       (example_db [example_tag ''A'' ''Accepted'' None])
         \<lparr>charge_points := [example_charge_point ''CP1'' True],
          connector_statuses := [example_status ''CP1'' 1 ''Charging'' 3 None]\<rparr>)
   \<and> on_remote_start_transaction (example_env 20) ''CP1'' ''A'' (Some 1)
      ((example_db [example_tag ''A'' ''Accepted'' None])
         \<lparr>charge_points := [example_charge_point ''CP1'' True],
          connector_statuses := [example_status ''CP1'' 1 ''Charging'' 3 None]\<rparr>)
    = (RemoteStartTransactionRes ''Rejected'',
       (example_db [example_tag ''A'' ''Accepted'' None])
         \<lparr>charge_points := [example_charge_point ''CP1'' True],
          connector_statuses := [example_status ''CP1'' 1 ''Charging'' 3 None]\<rparr>)"
  using remote_start_unknown_connector_accepted
          [of "example_env 20"
              "(example_db [example_tag ''A'' ''Accepted'' None])
                 \<lparr>charge_points := [example_charge_point ''CP1'' True],
                  connector_statuses := [example_status ''CP1'' 1 ''Charging'' 3 None]\<rparr>"
              "''A''" "''CP1''" 0 "example_charge_point ''CP1'' True" 5]
         remote_start_unknown_connector_accepted
          [of "example_env 20"
              "(example_db [example_tag ''A'' ''Accepted'' None])
                 \<lparr>charge_points := [example_charge_point ''CP1'' True],
                  connector_statuses := [example_status ''CP1'' 1 ''Charging'' 3 None]\<rparr>"
              "''A''" "''CP1''" 0 "example_charge_point ''CP1'' True" 1]
  by (simp add: example_db_def example_tag_def example_env_def example_charge_point_def
        example_status_def on_remote_start_transaction_def get_id_tag_info_def
        get_charge_point_def connector_rows_def select_where_def)

section \<open>Properties of the meter values\<close>

lemma add_sampled_values_spec:
  "add_sampled_values e ctx sid ts svs =
     List.map_filter (\<lambda>reading. map_option (spec_reading_row ctx sid ts reading) (coerce e reading)) svs"
  by (induction svs)
     (auto simp: spec_reading_row_def get_default_def split: option.splits)

lemma add_meter_values_spec:
  "add_meter_values e ctx sid batch = spec_ingest e ctx sid batch"
  by (induction batch)
     (simp_all add: spec_ingest_def spec_block_readings_def add_sampled_values_spec get_default_def)

lemma lookup_session_find:
  assumes "distinct (map s_transaction_id ss)"
  shows "scalar_one_or_none (select_where (\<lambda>s. s_transaction_id s = t) ss)
           = Inr (case select_where (\<lambda>s. s_transaction_id s = t) ss of
                    [] \<Rightarrow> None | y # _ \<Rightarrow> Some y)
         \<and> map_option (\<lambda>r. s_id (snd r))
              (case select_where (\<lambda>s. s_transaction_id s = t) ss of
                    [] \<Rightarrow> None | y # _ \<Rightarrow> Some y)
           = map_option s_id (find (\<lambda>s. s_transaction_id s = t) ss)"
proof (cases "t \<in> s_transaction_id ` set ss")
  case False
  then have "select_where (\<lambda>s. s_transaction_id s = t) ss = []"
    by (auto simp: select_where_empty_iff)
  moreover from False have "find (\<lambda>s. s_transaction_id s = t) ss = None"
    by (auto simp: find_None_iff)
  ultimately show ?thesis by simp
next
  case True
  then obtain i where i: "i < length ss" "s_transaction_id (ss ! i) = t"
    by (auto simp: in_set_conv_nth)
  have l: "scalar_one_or_none (select_where (\<lambda>s. s_transaction_id s = t) ss)
             = Inr (Some (i, ss ! i))"
    using lookup_session[OF assms i(1)] i(2) by simp
  have sel: "select_where (\<lambda>s. s_transaction_id s = t) ss = [(i, ss ! i)]"
    using l by (cases "select_where (\<lambda>s. s_transaction_id s = t) ss"
                  rule: scalar_one_or_none.cases) auto
  from True obtain y where y: "find (\<lambda>s. s_transaction_id s = t) ss = Some y"
    by (cases "find (\<lambda>s. s_transaction_id s = t) ss") (auto simp: find_None_iff)
  then obtain j where j: "j < length ss" "s_transaction_id (ss ! j) = t" "y = ss ! j"
    by (auto simp: find_Some_iff)
  have "map s_transaction_id ss ! i = map s_transaction_id ss ! j" using i j by simp
  then have "i = j"
    using nth_eq_iff_index_eq[OF assms, of i j] i(1) j(1) by simp
  with sel y j show ?thesis by simp
qed

text \<open>
  Claim C9. A MeterValues batch is persisted reading by reading: exactly the readings
  whose value does not coerce to a number are skipped, every other reading of the batch
  gives one row with the documented defaults (the transaction id being a unique column
  when one is given), and the empty acknowledgment is returned in every case.
\<close>

theorem meter_values_skip_only_malformed:
  "(distinct (map s_transaction_id (sessions d)) \<longrightarrow>
      on_meter_values e self_id connector_id batch transaction_id d
        = (MeterValuesRes,
           d\<lparr>meter_values := meter_values d
                @ spec_ingest e ''Sample.Periodic'' (spec_owner transaction_id (sessions d)) batch\<rparr>))
   \<and> fst (on_meter_values e self_id connector_id batch transaction_id d) = MeterValuesRes
   \<and> length (spec_ingest e ctx owner batch)
        = length (filter (\<lambda>reading. coerce e reading \<noteq> None)
                    (concat (map spec_block_readings batch)))"
proof (intro conjI impI)
  assume dist: "distinct (map s_transaction_id (sessions d))"
  show "on_meter_values e self_id connector_id batch transaction_id d
        = (MeterValuesRes,
           d\<lparr>meter_values := meter_values d
                @ spec_ingest e ''Sample.Periodic'' (spec_owner transaction_id (sessions d)) batch\<rparr>)"
  proof (cases transaction_id)
    case None
    then show ?thesis
      by (simp add: on_meter_values_def spec_owner_def add_meter_values_spec)
  next
    case (Some t)
    show ?thesis
      using lookup_session_find[OF dist, of t] Some
      by (simp add: on_meter_values_def spec_owner_def add_meter_values_spec)
  qed
next
  show "fst (on_meter_values e self_id connector_id batch transaction_id d) = MeterValuesRes"
    by (simp add: on_meter_values_def split: sum.splits)
next
  show "length (spec_ingest e ctx owner batch)
        = length (filter (\<lambda>reading. coerce e reading \<noteq> None)
                    (concat (map spec_block_readings batch)))"
    by (induction batch) (simp_all add: spec_ingest_def List.map_filter_def)
qed

theorem meter_values_skip_only_malformed_witness:
  "on_meter_values (example_env 20) ''CP1'' 1
      [\<lparr>mval_timestamp = None,
        mval_sampledValue = Some [example_reading (Some ''12''), example_reading (Some ''x''),
                                  example_reading (Some ''7'')]\<rparr>]
      None (example_db [])
    = (MeterValuesRes,
       (example_db [])\<lparr>meter_values :=
          [\<lparr>mv_session_id = None, mv_timestamp = 20, mv_value = 12, mv_unit = ''Wh'',
            mv_measurand = ''Energy.Active.Import.Register'', mv_phase = None,
            mv_location = ''Outlet'', mv_context = ''Sample.Periodic'', mv_format = ''Raw''\<rparr>,
           \<lparr>mv_session_id = None, mv_timestamp = 20, mv_value = 7, mv_unit = ''Wh'',
            mv_measurand = ''Energy.Active.Import.Register'', mv_phase = None,
            mv_location = ''Outlet'', mv_context = ''Sample.Periodic'', mv_format = ''Raw''\<rparr>]\<rparr>)"
  using meter_values_skip_only_malformed
          [of "example_db []" "example_env 20" "''CP1''" 1
              "[\<lparr>mval_timestamp = None,
        mval_sampledValue = Some [example_reading (Some ''12''), example_reading (Some ''x''),
                                  example_reading (Some ''7'')]\<rparr>]" None]
  by (simp add: example_db_def example_env_def example_reading_def spec_ingest_def
        spec_owner_def spec_block_readings_def spec_reading_row_def
        meter_timestamp_of_def coerce_def decimal_def)

section \<open>Properties of the transaction ids\<close>



lemma stop_session_transaction_id [simp]:
  "s_transaction_id (stop_session e stop_time meter_stop reason s) = s_transaction_id s"
  by (simp add: stop_session_def)











section \<open>Properties of the change of availability\<close>

text \<open>
  With exactly one Active session of the charge point on connector 1 the request is
  answered Scheduled; in every case where such a session exists, the store is left as it
  was and no task is started.
\<close>

lemma change_availability_blocked:
  assumes "connector_id = 0 \<or> connector_id = 1"
      and "\<exists>s \<in> set (sessions d). s_charge_point_id s = self_id \<and> s_connector_id s = 1
              \<and> s_status s = ''Active''"
  shows "on_change_availability e self_id connector_id type d
           = (ChangeAvailabilityRes
                (if length (select_where
                              (\<lambda>s. s_charge_point_id s = self_id \<and> s_connector_id s = 1
                                    \<and> s_status s = ''Active'') (sessions d)) = 1
                 then ''Scheduled'' else ''Rejected''), d, [])"
proof -
  let ?rows = "select_where (\<lambda>s. s_charge_point_id s = self_id \<and> s_connector_id s = 1
                                    \<and> s_status s = ''Active'') (sessions d)"
  from assms(2) have ne: "?rows \<noteq> []" by (auto simp: select_where_empty_iff)
  show ?thesis
  proof (cases ?rows rule: scalar_one_or_none.cases)
    case 1
    with ne show ?thesis by simp
  next
    case (2 x)
    with assms(1) show ?thesis
      by (auto simp: on_change_availability_def active_session_on_connector_1_def)
  next
    case (3 x y zs)
    with assms(1) show ?thesis
      by (auto simp: on_change_availability_def active_session_on_connector_1_def)
  qed
qed

text \<open>
  Claim C4. The handler's own documentation answers Scheduled whenever a transaction is
  in progress. Two StartTransaction messages for connector 1 of one charge point leave
  two Active sessions there (nothing in StartTransaction refuses the second), and the
  lookup of the active session then raises MultipleResultsFound: the request is answered
  Rejected, not Scheduled. The store is unchanged and no task is started.
\<close>

theorem change_availability_two_active_sessions_rejected:
  "(case run [(example_env 10, ''CP1'', StartTransaction 1 ''A'' 100 (TsDatetime 9) None),
              (example_env 11, ''CP1'', StartTransaction 1 ''A'' 100 (TsDatetime 10) None)]
             (example_db [example_tag ''A'' ''Accepted'' None]) [7, 8] of
      None \<Rightarrow> False
    | Some (rs, d', rng') \<Rightarrow>
        map s_status (sessions d') = [''Active'', ''Active'']
        \<and> map s_connector_id (sessions d') = [1, 1]
        \<and> map s_charge_point_id (sessions d') = [''CP1'', ''CP1'']
        \<and> on_change_availability (example_env 12) ''CP1'' 1 ''Inoperative'' d'
            = (ChangeAvailabilityRes ''Rejected'', d', []))"
  by (simp add: example_db_def example_tag_def example_env_def
        on_start_transaction_def get_id_tag_info_def select_where_def invalid_info_def
        randint_def read_timestamp_def next_id_def on_change_availability_def
        active_session_on_connector_1_def)











lemma latest_rows_Nil_iff:
  "latest_rows self_id c rows = [] \<longleftrightarrow>
     (\<forall>r \<in> set rows. \<not> (cs_charge_point_id r = self_id \<and> cs_connector_id r = c))"
  by (simp add: latest_rows_def connector_rows_def select_where_empty_iff)















end
